theory Spec2Isabelle
  imports Complex_Main "HOL-Library.Word"
begin

section \<open>Values shared by the relayer's validator client\<close>

text \<open>
  Go's \<open>uint64\<close> is a 64-bit word. \<open>ids.ID\<close> and \<open>ids.NodeID\<close> are fixed-size byte
  arrays of the avalanchego library; only their identity matters here, so they are
  byte strings. A Go function returning \<open>(value, error)\<close> is modelled by the tuple it
  returns: a \<open>nil\<close> error, slice, map or pointer is \<open>None\<close>.
\<close>

type_synonym uint64 = "64 word"
type_synonym bytes = "8 word list"
type_synonym ID = bytes
type_synonym NodeID = bytes

text \<open>
  Go's \<open>error\<close> interface. The validator client never inspects an error, it only tests
  it against \<open>nil\<close>; the constructors name the conditions the specification
  distinguishes, any other upstream failure (with its message), and the one error
  value the peers package declares itself.
\<close>

datatype error =
    MethodUnsupported
  | UpstreamUnavailable
  | EmptySubnet
  | OtherError string
  | ErrFailedToCreateAppRequestNetworkMetrics

text \<open>
  A \<open>context.Context\<close>: the source builds \<open>context.Background()\<close> itself and otherwise
  forwards the caller's context, told apart here by a tag.
\<close>

datatype Context = Background | CallerContext nat

text \<open>An \<open>rpc.Option\<close> is opaque to the client, which only forwards its options.\<close>

type_synonym rpc_Option = string

text \<open>\<open>validators.GetValidatorOutput\<close>, the entries of the map \<open>GetValidatorsAt\<close> returns.\<close>

record GetValidatorOutput =
  outNodeID :: NodeID
  outPublicKey :: "bytes option"
  outWeight :: uint64

text \<open>\<open>avalancheWarp.Validator\<close>, an entry of the canonical validator set.\<close>

record WarpValidator =
  PublicKeyBytes :: bytes
  Weight :: uint64
  NodeIDs :: "NodeID list"

subsection \<open>Observable effects\<close>

text \<open>
  Every method returns, next to its Go result, the effects it had in order: the RPCs it
  issued through \<open>platformvm.Client\<close> and the entries it wrote to its logger.
\<close>

datatype Logger = Logger string

datatype level = DebugLevel | ErrorLevel

datatype zap_field =
    ZapString string string
  | ZapUint64 string uint64
  | ZapError error

datatype rpc_call =
    CallGetHeight Context "rpc_Option list"
  | CallValidatedBy Context ID "rpc_Option list"
  | CallGetValidatorsAt Context ID uint64 "rpc_Option list"

datatype event =
    Rpc rpc_call
  | Log Logger level string "zap_field list"

fun isRpc :: "event \<Rightarrow> bool" where
  "isRpc (Rpc c) = True"
| "isRpc (Log lg lv msg fs) = False"

section \<open>peers/validators: CanonicalValidatorClient\<close>

text \<open>
  The methods of \<open>platformvm.Client\<close> the file calls. Each field is the upstream's answer
  to one call.
\<close>

record Client =
  GetHeight :: "Context \<Rightarrow> rpc_Option list \<Rightarrow> uint64 \<times> error option"
  ValidatedBy :: "Context \<Rightarrow> ID \<Rightarrow> rpc_Option list \<Rightarrow> ID \<times> error option"
  GetValidatorsAt :: "Context \<Rightarrow> ID \<Rightarrow> uint64 \<Rightarrow> rpc_Option list
    \<Rightarrow> (NodeID \<rightharpoonup> GetValidatorOutput) option \<times> error option"

record CanonicalValidatorClient =
  logger :: Logger
  client :: Client
  options :: "rpc_Option list"

text \<open>
  What the file takes from the avalanchego library, whose code is not part of the
  repository: \<open>avalancheWarp.GetCanonicalValidatorSet\<close> (called with the client itself as
  its \<open>validators.State\<close>), the constant \<open>pchainapi.ProposedHeight\<close> and the rendering
  \<open>ids.ID.String\<close>. They are parameters of the model.
\<close>

record avalanchego =
  GetCanonicalValidatorSet :: "Context \<Rightarrow> CanonicalValidatorClient \<Rightarrow> uint64 \<Rightarrow> ID
    \<Rightarrow> event list \<times> (WarpValidator list option \<times> uint64 \<times> error option)"
  ProposedHeight :: uint64
  IDString :: "ID \<Rightarrow> string"

definition GetCurrentCanonicalValidatorSet ::
  "avalanchego \<Rightarrow> CanonicalValidatorClient \<Rightarrow> ID
    \<Rightarrow> event list \<times> (WarpValidator list option \<times> uint64 \<times> error option)" where
  "GetCurrentCanonicalValidatorSet lib v subnetID =
     (case GetCanonicalValidatorSet lib Background v (ProposedHeight lib) subnetID of
        (evs, canonicalSubnetValidators, totalValidatorWeight, err) \<Rightarrow>
          (case err of
             Some e \<Rightarrow>
               (evs @ [Log (logger v) ErrorLevel
                         ''Failed to get the canonical subnet validator set''
                         [ZapString ''subnetID'' (IDString lib subnetID), ZapError e]],
                (None, 0, Some e))
           | None \<Rightarrow> (evs, (canonicalSubnetValidators, totalValidatorWeight, None))))"

definition GetMinimumHeight ::
  "CanonicalValidatorClient \<Rightarrow> Context \<Rightarrow> event list \<times> (uint64 \<times> error option)" where
  "GetMinimumHeight v ctx =
     ([Rpc (CallGetHeight ctx (options v))], GetHeight (client v) ctx (options v))"

definition GetCurrentHeight ::
  "CanonicalValidatorClient \<Rightarrow> Context \<Rightarrow> event list \<times> (uint64 \<times> error option)" where
  "GetCurrentHeight v ctx =
     ([Rpc (CallGetHeight ctx (options v))], GetHeight (client v) ctx (options v))"

definition GetSubnetID ::
  "CanonicalValidatorClient \<Rightarrow> Context \<Rightarrow> ID \<Rightarrow> event list \<times> (ID \<times> error option)" where
  "GetSubnetID v ctx blockchainID =
     ([Rpc (CallValidatedBy ctx blockchainID (options v))],
      ValidatedBy (client v) ctx blockchainID (options v))"

text \<open>
  \<open>GetCurrentValidatorSet\<close> ignores both arguments. Its result map is keyed by \<open>ids.ID\<close>;
  the entry type \<open>validators.GetCurrentValidatorOutput\<close> is never built, so it stays a
  type parameter.
\<close>

definition GetCurrentValidatorSet ::
  "CanonicalValidatorClient \<Rightarrow> Context \<Rightarrow> ID
    \<Rightarrow> event list \<times> ((ID \<rightharpoonup> 'out) option \<times> uint64 \<times> error option)" where
  "GetCurrentValidatorSet v ctx subnetID = ([], (None, 0, None))"

text \<open>
  \<open>GetValidatorSet\<close>: the conversion \<open>pchainapi.Height(height)\<close> keeps the 64-bit value.
  The error branch logs at debug level and returns \<open>nil\<close> with the error; there is no
  further call.
\<close>

definition GetValidatorSet ::
  "avalanchego \<Rightarrow> CanonicalValidatorClient \<Rightarrow> Context \<Rightarrow> uint64 \<Rightarrow> ID
    \<Rightarrow> event list \<times> ((NodeID \<rightharpoonup> GetValidatorOutput) option \<times> error option)" where
  "GetValidatorSet lib v ctx height subnetID =
     (case GetValidatorsAt (client v) ctx subnetID height (options v) of
        (res, err) \<Rightarrow>
          (case err of
             Some e \<Rightarrow>
               ([Rpc (CallGetValidatorsAt ctx subnetID height (options v)),
                 Log (logger v) DebugLevel
                   ''P-chain RPC to getValidatorAt returned error. Falling back to getCurrentValidators''
                   [ZapString ''subnetID'' (IDString lib subnetID),
                    ZapUint64 ''pChainHeight'' height,
                    ZapError e]],
                (None, Some e))
           | None \<Rightarrow>
               ([Rpc (CallGetValidatorsAt ctx subnetID height (options v))], (res, None))))"

section \<open>peers: AppRequestNetworkMetrics\<close>

text \<open>
  A function that can panic returns an \<open>outcome\<close>: \<open>Panic\<close>, or the Go result it
  returns.
\<close>

datatype 'a outcome = Panic | Returns 'a

text \<open>
  \<open>config.Config\<close> and \<open>config.APIConfig\<close> are declared outside the sources. The
  function receives the configuration by pointer, and \<open>NewCanonicalValidatorClient\<close>
  receives an \<open>APIConfig\<close> by pointer, so both API fields are taken as pointers too:
  reading through a \<open>nil\<close> one panics.
\<close>

record APIConfig =
  BaseURL :: string

record Config =
  InfoAPI :: "APIConfig option"
  PChainAPI :: "APIConfig option"

text \<open>
  The prometheus library is a parameter as well. A \<open>GaugeVec\<close> is known by the options
  and label names it was built from; \<open>prometheus.NewGaugeVec\<close> returns a pointer, so
  its model may answer \<open>None\<close>. A \<open>prometheus.Registerer\<close> is an object with state:
  \<open>MustRegister\<close> gives the registry after the registration, or \<open>None\<close> when it panics.
\<close>

record GaugeOpts =
  Name :: string
  Help :: string

record GaugeVec =
  gaugeOpts :: GaugeOpts
  labelNames :: "string list"

record 's Registerer =
  registry :: 's
  MustRegister :: "'s \<Rightarrow> GaugeVec \<Rightarrow> 's option"

record AppRequestNetworkMetrics =
  infoAPIBaseURL :: string
  pChainAPIBaseURL :: string
  infoAPICallLatencyMS :: "GaugeVec option"
  pChainAPICallLatencyMS :: "GaugeVec option"

text \<open>The two literal option structs and label lists of the function body.\<close>

definition infoAPICallLatencyOpts :: GaugeOpts where
  "infoAPICallLatencyOpts =
     \<lparr>Name = ''info_api_call_latency_ms'',
      Help = ''Latency of calling info api in milliseconds''\<rparr>"

definition pChainAPICallLatencyOpts :: GaugeOpts where
  "pChainAPICallLatencyOpts =
     \<lparr>Name = ''p_chain_api_call_latency_ms'',
      Help = ''Latency of calling p-chain rpc in milliseconds''\<rparr>"

definition NewAppRequestNetworkMetrics ::
  "(GaugeOpts \<Rightarrow> string list \<Rightarrow> GaugeVec option) \<Rightarrow> Config option \<Rightarrow> 's Registerer
    \<Rightarrow> ('s Registerer \<times> AppRequestNetworkMetrics option \<times> error option) outcome" where
  "NewAppRequestNetworkMetrics NewGaugeVec cfg registerer =
     (case NewGaugeVec infoAPICallLatencyOpts [''info_api_base_url''] of
        None \<Rightarrow> Returns (registerer, None, Some ErrFailedToCreateAppRequestNetworkMetrics)
      | Some infoGauge \<Rightarrow>
     (case MustRegister registerer (registry registerer) infoGauge of
        None \<Rightarrow> Panic
      | Some reg1 \<Rightarrow>
     (case NewGaugeVec pChainAPICallLatencyOpts [''p_chain_api_base_url''] of
        None \<Rightarrow>
          Returns (registerer\<lparr>registry := reg1\<rparr>, None,
                   Some ErrFailedToCreateAppRequestNetworkMetrics)
      | Some pChainGauge \<Rightarrow>
     (case MustRegister registerer reg1 pChainGauge of
        None \<Rightarrow> Panic
      | Some reg2 \<Rightarrow>
     (case cfg of
        None \<Rightarrow> Panic
      | Some c \<Rightarrow>
     (case InfoAPI c of
        None \<Rightarrow> Panic
      | Some infoAPI \<Rightarrow>
     (case PChainAPI c of
        None \<Rightarrow> Panic
      | Some pChainAPI \<Rightarrow>
          Returns (registerer\<lparr>registry := reg2\<rparr>,
                   Some \<lparr>infoAPIBaseURL = BaseURL infoAPI,
                         pChainAPIBaseURL = BaseURL pChainAPI,
                         infoAPICallLatencyMS = Some infoGauge,
                         pChainAPICallLatencyMS = Some pChainGauge\<rparr>,
                   None))))))))"

section \<open>Quorum Evaluator\<close>

text \<open>
  Modelled from the spec: the Quorum Evaluator \<open>hasQuorum\<close> (section 4.2) and the data
  it reads (section 3: Validator, ValidatorSet, QuorumRequirement, AttestationSet) have
  no code among the sources. The definitions follow the specification's wording: stake
  weights are natural numbers, the fraction is a rational number, the attestations
  are a map from validator identity to attestation, and the members of the set are
  visited in their canonical order.
\<close>

record Validator =
  nodeIdentity :: NodeID
  attestationPublicKey :: bytes
  stakeWeight :: nat

record ValidatorSet =
  subnetIdentity :: ID
  atHeight :: "nat option"
  members :: "Validator list"
  totalWeight :: nat

record QuorumRequirement =
  fraction :: rat

type_synonym AttestationSet = "NodeID \<rightharpoonup> bytes"

fun attestedWeight :: "Validator list \<Rightarrow> AttestationSet \<Rightarrow> nat \<Rightarrow> nat" where
  "attestedWeight [] attestations acc = acc"
| "attestedWeight (v # vs) attestations acc =
     attestedWeight vs attestations
       (case attestations (nodeIdentity v) of
          None \<Rightarrow> acc
        | Some a \<Rightarrow> acc + stakeWeight v)"

definition hasQuorum :: "ValidatorSet \<Rightarrow> AttestationSet \<Rightarrow> QuorumRequirement \<Rightarrow> bool" where
  "hasQuorum validatorSet attestations requirement =
     (fraction requirement * of_nat (totalWeight validatorSet)
        \<le> of_nat (attestedWeight (members validatorSet) attestations 0))"

section \<open>Admission Filter\<close>

text \<open>
  Modelled from the spec: the Admission Filter \<open>isAdmitted\<close> (section 4.3) with
  RelayerInstanceConfig and ObservedMessage (section 3) has no code among the sources,
  which hold only the end-to-end test that configures allowed addresses. An allow-list
  is the wildcard or an explicit set of addresses; a configuration gives each
  configured chain its allow-list.
\<close>

type_synonym Address = string

datatype AllowList = Wildcard | Explicit "Address set"

record RelayerInstanceConfig =
  sourceChains :: "ID \<rightharpoonup> AllowList"
  destinationChains :: "ID \<rightharpoonup> AllowList"

record ObservedMessage =
  sourceChain :: ID
  originSenderAddress :: Address
  destinationChain :: ID
  destinationAddress :: Address
  sequencePosition :: "nat \<times> nat"
  payload :: bytes

fun allows :: "AllowList \<Rightarrow> Address \<Rightarrow> bool" where
  "allows Wildcard a = True"
| "allows (Explicit addrs) a = (a \<in> addrs)"

definition sourceAdmits :: "RelayerInstanceConfig \<Rightarrow> ObservedMessage \<Rightarrow> bool" where
  "sourceAdmits config message =
     (case sourceChains config (sourceChain message) of
        None \<Rightarrow> False
      | Some allowedOriginSenders \<Rightarrow> allows allowedOriginSenders (originSenderAddress message))"

definition destinationAdmits :: "RelayerInstanceConfig \<Rightarrow> ObservedMessage \<Rightarrow> bool" where
  "destinationAdmits config message =
     (case destinationChains config (destinationChain message) of
        None \<Rightarrow> False
      | Some allowedDestinations \<Rightarrow> allows allowedDestinations (destinationAddress message))"

definition isAdmitted :: "RelayerInstanceConfig \<Rightarrow> ObservedMessage \<Rightarrow> bool" where
  "isAdmitted config message = (sourceAdmits config message \<and> destinationAdmits config message)"

section \<open>The library's canonical validator set\<close>

text \<open>
  \<open>avalancheWarp.GetCanonicalValidatorSet\<close> belongs to the avalanchego library and is
  outside the sources. Its loop over the validators of a subnet is written out here so
  that the weights it returns can be spoken of: every validator's weight is added to
  the total (an overflow of the 64-bit total is an error), a validator without a public
  key is then skipped, the others are merged by public key, and the merged validators
  are returned sorted by public key. The theorems use it only as a hypothesis on the
  library parameter.
\<close>

fun addValidator :: "bytes \<Rightarrow> GetValidatorOutput \<Rightarrow> WarpValidator list \<Rightarrow> WarpValidator list" where
  "addValidator pkBytes vdr [] =
     [\<lparr>PublicKeyBytes = pkBytes, Weight = outWeight vdr, NodeIDs = [outNodeID vdr]\<rparr>]"
| "addValidator pkBytes vdr (u # us) =
     (if PublicKeyBytes u = pkBytes
      then u\<lparr>Weight := Weight u + outWeight vdr, NodeIDs := NodeIDs u @ [outNodeID vdr]\<rparr> # us
      else u # addValidator pkBytes vdr us)"

fun bytesLeq :: "bytes \<Rightarrow> bytes \<Rightarrow> bool" where
  "bytesLeq [] ys = True"
| "bytesLeq (x # xs) [] = False"
| "bytesLeq (x # xs) (y # ys) = (x < y \<or> (x = y \<and> bytesLeq xs ys))"

fun insertValidator :: "WarpValidator \<Rightarrow> WarpValidator list \<Rightarrow> WarpValidator list" where
  "insertValidator u [] = [u]"
| "insertValidator u (w # ws) =
     (if bytesLeq (PublicKeyBytes u) (PublicKeyBytes w) then u # w # ws
      else w # insertValidator u ws)"

fun sortValidators :: "WarpValidator list \<Rightarrow> WarpValidator list" where
  "sortValidators [] = []"
| "sortValidators (u # us) = insertValidator u (sortValidators us)"

fun canonicalLoop ::
  "GetValidatorOutput list \<Rightarrow> WarpValidator list \<Rightarrow> uint64
    \<Rightarrow> WarpValidator list option \<times> uint64 \<times> error option" where
  "canonicalLoop [] vdrs totalW = (Some (sortValidators vdrs), totalW, None)"
| "canonicalLoop (vdr # rest) vdrs totalW =
     (if 2 ^ 64 \<le> unat totalW + unat (outWeight vdr)
      then (None, 0, Some (OtherError ''weight overflow''))
      else (case outPublicKey vdr of
              None \<Rightarrow> canonicalLoop rest vdrs (totalW + outWeight vdr)
            | Some pkBytes \<Rightarrow>
                canonicalLoop rest (addValidator pkBytes vdr vdrs) (totalW + outWeight vdr)))"

definition canonicalValidatorSetOf ::
  "GetValidatorOutput list \<Rightarrow> WarpValidator list option \<times> uint64 \<times> error option" where
  "canonicalValidatorSetOf entries = canonicalLoop entries [] 0"

text \<open>
  The weight of all the validators the library visited, and of those among them that
  have no public key.
\<close>

definition entriesWeight :: "GetValidatorOutput list \<Rightarrow> nat" where
  "entriesWeight entries = sum_list (map (\<lambda>e. unat (outWeight e)) entries)"

definition keylessWeight :: "GetValidatorOutput list \<Rightarrow> nat" where
  "keylessWeight entries =
     sum_list (map (\<lambda>e. unat (outWeight e)) (filter (\<lambda>e. outPublicKey e = None) entries))"

section \<open>Example inputs\<close>

text \<open>
  A P-chain client that answers the height-scoped validator query with "method
  unsupported" at height 7, with a transient failure at height 8 and with a validator
  map otherwise; a validator client built on it; and an instance of the library
  functions whose canonical set depends on the subnet asked for.
\<close>

definition exampleClient :: Client where
  "exampleClient =
     \<lparr>GetHeight = (\<lambda>ctx opts. (100, None)),
      ValidatedBy = (\<lambda>ctx blockchainID opts.
         if blockchainID = [9] then ([], Some UpstreamUnavailable) else ([1], None)),
      GetValidatorsAt = (\<lambda>ctx subnetID height opts.
         if height = 7 then (None, Some MethodUnsupported)
         else if height = 8 then (None, Some UpstreamUnavailable)
         else (Some (Map.empty([5] \<mapsto> \<lparr>outNodeID = [5], outPublicKey = None, outWeight = 3\<rparr>)),
               None))\<rparr>"

definition exampleValidatorClient :: CanonicalValidatorClient where
  "exampleValidatorClient =
     \<lparr>logger = Logger ''relayer'', client = exampleClient, options = [''api-key'']\<rparr>"

definition exampleLib :: avalanchego where
  "exampleLib =
     \<lparr>GetCanonicalValidatorSet = (\<lambda>ctx v height subnetID.
         if subnetID = [1] then
           ([Rpc (CallGetValidatorsAt ctx subnetID height (options v))],
            (Some [\<lparr>PublicKeyBytes = [1], Weight = 7, NodeIDs = [[1]]\<rparr>], 7, None))
         else if subnetID = [2] then
           ([Rpc (CallGetValidatorsAt ctx subnetID height (options v))],
            (Some [\<lparr>PublicKeyBytes = [1], Weight = 1, NodeIDs = [[1]]\<rparr>], 5, None))
         else
           ([Rpc (CallGetValidatorsAt ctx subnetID height (options v))],
            (Some [], 3, Some EmptySubnet))),
      ProposedHeight = - 1,
      IDString = (\<lambda>i. ''subnet'')\<rparr>"

text \<open>The sum of the weights of a returned validator list (\<open>nil\<close> has no members).\<close>

definition memberWeightSum :: "WarpValidator list option \<Rightarrow> nat" where
  "memberWeightSum vs =
     (case vs of None \<Rightarrow> 0 | Some xs \<Rightarrow> sum_list (map (\<lambda>x. unat (Weight x)) xs))"

text \<open>
  The scenario of the specification: four validators of weights 40, 30, 20 and 10 (total
  100), attestations from the 40- and 30-weight validators, and from the 40- and
  20-weight validators, against a requirement of 67 percent; and a requirement of 70
  percent, which the first attestations meet exactly.
\<close>

definition validator40 :: Validator where
  "validator40 = \<lparr>nodeIdentity = [1], attestationPublicKey = [11], stakeWeight = 40\<rparr>"
definition validator30 :: Validator where
  "validator30 = \<lparr>nodeIdentity = [2], attestationPublicKey = [12], stakeWeight = 30\<rparr>"
definition validator20 :: Validator where
  "validator20 = \<lparr>nodeIdentity = [3], attestationPublicKey = [13], stakeWeight = 20\<rparr>"
definition validator10 :: Validator where
  "validator10 = \<lparr>nodeIdentity = [4], attestationPublicKey = [14], stakeWeight = 10\<rparr>"

definition scenarioSet :: ValidatorSet where
  "scenarioSet =
     \<lparr>subnetIdentity = [1], atHeight = None,
      members = [validator40, validator30, validator20, validator10],
      totalWeight = 100\<rparr>"

definition attestations_40_30 :: AttestationSet where
  "attestations_40_30 = [[1] \<mapsto> [101], [2] \<mapsto> [102]]"

definition attestations_40_20 :: AttestationSet where
  "attestations_40_20 = [[1] \<mapsto> [101], [3] \<mapsto> [103]]"

definition requirement67 :: QuorumRequirement where
  "requirement67 = \<lparr>fraction = 67 / 100\<rparr>"

definition requirement70 :: QuorumRequirement where
  "requirement70 = \<lparr>fraction = 7 / 10\<rparr>"

text \<open>
  The specification's wording of the sum: the stake weight of the members of the set
  that have an attestation.
\<close>

definition commonWeight :: "ValidatorSet \<Rightarrow> AttestationSet \<Rightarrow> nat" where
  "commonWeight validatorSet attestations =
     sum_list (map stakeWeight
       (filter (\<lambda>v. attestations (nodeIdentity v) \<noteq> None) (members validatorSet)))"

text \<open>
  A configuration with two source chains and two destination chains: source chain 1
  allows the origin sender 0xAAA only and source chain 2 any sender; destination chain 3
  allows any address and destination chain 4 the address 0xCCC only.
\<close>

definition scenarioConfig :: RelayerInstanceConfig where
  "scenarioConfig =
     \<lparr>sourceChains = [[1] \<mapsto> Explicit {''0xAAA''}, [2] \<mapsto> Wildcard],
      destinationChains = [[3] \<mapsto> Wildcard, [4] \<mapsto> Explicit {''0xCCC''}]\<rparr>"

definition observed ::
  "ID \<Rightarrow> Address \<Rightarrow> ID \<Rightarrow> Address \<Rightarrow> ObservedMessage" where
  "observed src sender dst receiver =
     \<lparr>sourceChain = src, originSenderAddress = sender,
      destinationChain = dst, destinationAddress = receiver,
      sequencePosition = (100, 0), payload = []\<rparr>"

text \<open>
  A gauge-vector constructor that always builds a vector, a configuration with both
  API endpoints, and a registry that keeps the names registered so far and panics on a
  name it already holds.
\<close>

definition exampleNewGaugeVec :: "GaugeOpts \<Rightarrow> string list \<Rightarrow> GaugeVec option" where
  "exampleNewGaugeVec opts labels = Some \<lparr>gaugeOpts = opts, labelNames = labels\<rparr>"

definition exampleConfig :: Config where
  "exampleConfig =
     \<lparr>InfoAPI = Some \<lparr>BaseURL = ''http://info''\<rparr>,
      PChainAPI = Some \<lparr>BaseURL = ''http://pchain''\<rparr>\<rparr>"

definition exampleRegisterer :: "string list Registerer" where
  "exampleRegisterer =
     \<lparr>registry = [],
      MustRegister = (\<lambda>names g.
         if Name (gaugeOpts g) \<in> set names then None
         else Some (Name (gaugeOpts g) # names))\<rparr>"

text \<open>
  A library instance that runs this computation: subnet 1 has two validators with
  public keys (weights 3 and 4), subnet 2 one validator with a public key (weight 1) and
  one without (weight 4), subnet 4 two validators whose weights add up to 2^64; any other
  subnet is unknown.
\<close>

definition canonicalLib :: avalanchego where
  "canonicalLib =
     \<lparr>GetCanonicalValidatorSet = (\<lambda>ctx v height subnetID.
         if subnetID = [1] then
           ([Rpc (CallGetValidatorsAt ctx subnetID height (options v))],
            canonicalValidatorSetOf
              [\<lparr>outNodeID = [2], outPublicKey = Some [9], outWeight = 4\<rparr>,
               \<lparr>outNodeID = [1], outPublicKey = Some [8], outWeight = 3\<rparr>])
         else if subnetID = [2] then
           ([Rpc (CallGetValidatorsAt ctx subnetID height (options v))],
            canonicalValidatorSetOf
              [\<lparr>outNodeID = [1], outPublicKey = Some [8], outWeight = 1\<rparr>,
               \<lparr>outNodeID = [3], outPublicKey = None, outWeight = 4\<rparr>])
         else if subnetID = [4] then
           ([Rpc (CallGetValidatorsAt ctx subnetID height (options v))],
            canonicalValidatorSetOf
              [\<lparr>outNodeID = [1], outPublicKey = Some [8], outWeight = 18446744073709551615\<rparr>,
               \<lparr>outNodeID = [2], outPublicKey = Some [9], outWeight = 1\<rparr>])
         else
           ([Rpc (CallGetValidatorsAt ctx subnetID height (options v))],
            (None, 0, Some EmptySubnet))),
      ProposedHeight = - 1,
      IDString = (\<lambda>i. ''subnet'')\<rparr>"

section \<open>Properties of the validator client\<close>

text \<open>
  C8: \<open>GetCurrentHeight\<close> and \<open>GetMinimumHeight\<close> are the same passthrough to the
  P-chain height query: on the same client and context they issue the same call and
  return the same \<open>(uint64, error)\<close> result.
\<close>

theorem GetCurrentHeight_eq_GetMinimumHeight:
  "GetCurrentHeight v ctx = GetMinimumHeight v ctx
   \<and> snd (GetMinimumHeight v ctx) = GetHeight (client v) ctx (options v)"
  by (simp add: GetCurrentHeight_def GetMinimumHeight_def)

text \<open>
  C1: when the height-scoped query \<open>GetValidatorsAt\<close> fails with \<open>MethodUnsupported\<close>,
  \<open>GetValidatorSet\<close> should fall back to the current-validators query and never
  surface that error. The code does not: on the example client at height 7 it issues
  the one height-scoped RPC, logs "Falling back to getCurrentValidators" and returns
  \<open>(nil, MethodUnsupported)\<close> to the caller.
\<close>

theorem GetValidatorSet_surfaces_MethodUnsupported:
  "GetValidatorSet exampleLib exampleValidatorClient (CallerContext 0) 7 [1] =
     ([Rpc (CallGetValidatorsAt (CallerContext 0) [1] 7 [''api-key'']),
       Log (Logger ''relayer'') DebugLevel
         ''P-chain RPC to getValidatorAt returned error. Falling back to getCurrentValidators''
         [ZapString ''subnetID'' ''subnet'', ZapUint64 ''pChainHeight'' 7,
          ZapError MethodUnsupported]],
      (None, Some MethodUnsupported))"
  by (simp add: GetValidatorSet_def exampleValidatorClient_def exampleClient_def exampleLib_def)

text \<open>
  C2: when the height-scoped query fails with any error other than
  \<open>MethodUnsupported\<close>, \<open>GetValidatorSet\<close> returns \<open>nil\<close> with that same error, and the
  height-scoped query is the only RPC it issues: no fallback query takes its place.
\<close>

theorem GetValidatorSet_error_returned:
  assumes "GetValidatorsAt (client v) ctx subnetID height (options v) = (res, Some e)"
      and "e \<noteq> MethodUnsupported"
  shows "snd (GetValidatorSet lib v ctx height subnetID) = (None, Some e)
         \<and> filter isRpc (fst (GetValidatorSet lib v ctx height subnetID))
             = [Rpc (CallGetValidatorsAt ctx subnetID height (options v))]"
  using assms by (simp add: GetValidatorSet_def)

theorem GetValidatorSet_error_returned_witness:
  "GetValidatorsAt (client exampleValidatorClient) (CallerContext 0) [1] 8
       (options exampleValidatorClient) = (None, Some UpstreamUnavailable)
   \<and> UpstreamUnavailable \<noteq> MethodUnsupported
   \<and> snd (GetValidatorSet exampleLib exampleValidatorClient (CallerContext 0) 8 [1])
       = (None, Some UpstreamUnavailable)
   \<and> filter isRpc (fst (GetValidatorSet exampleLib exampleValidatorClient (CallerContext 0) 8 [1]))
       = [Rpc (CallGetValidatorsAt (CallerContext 0) [1] 8 [''api-key''])]"
proof -
  have h: "GetValidatorsAt (client exampleValidatorClient) (CallerContext 0) [1] 8
       (options exampleValidatorClient) = (None, Some UpstreamUnavailable)"
    by (simp add: exampleValidatorClient_def exampleClient_def)
  have opts: "options exampleValidatorClient = [''api-key'']"
    by (simp add: exampleValidatorClient_def)
  from GetValidatorSet_error_returned [OF h, of exampleLib] h opts show ?thesis
    by simp
qed

text \<open>
  C6: \<open>GetCurrentCanonicalValidatorSet\<close> asks for the canonical validator set at
  \<open>pchainapi.ProposedHeight\<close> with a background context. When that computation
  succeeds, its validator list and total weight (and its effects) are returned
  unchanged with a \<open>nil\<close> error; when it fails, the result is \<open>(nil, 0)\<close> with the
  upstream's error, whatever list and weight came with it.
\<close>

theorem GetCurrentCanonicalValidatorSet_passthrough:
  "(GetCanonicalValidatorSet lib Background v (ProposedHeight lib) subnetID
      = (evs, vals, tw, None)
    \<longrightarrow> GetCurrentCanonicalValidatorSet lib v subnetID = (evs, (vals, tw, None)))
   \<and> (GetCanonicalValidatorSet lib Background v (ProposedHeight lib) subnetID
      = (evs, vals, tw, Some e)
    \<longrightarrow> snd (GetCurrentCanonicalValidatorSet lib v subnetID) = (None, 0, Some e))"
  by (simp add: GetCurrentCanonicalValidatorSet_def)

theorem GetCurrentCanonicalValidatorSet_passthrough_witness:
  "GetCurrentCanonicalValidatorSet exampleLib exampleValidatorClient [1]
     = ([Rpc (CallGetValidatorsAt Background [1] (- 1) [''api-key''])],
        (Some [\<lparr>PublicKeyBytes = [1], Weight = 7, NodeIDs = [[1]]\<rparr>], 7, None))
   \<and> snd (GetCurrentCanonicalValidatorSet exampleLib exampleValidatorClient [3])
     = (None, 0, Some EmptySubnet)"
proof -
  have ok: "GetCanonicalValidatorSet exampleLib Background exampleValidatorClient
              (ProposedHeight exampleLib) [1]
            = ([Rpc (CallGetValidatorsAt Background [1] (- 1) [''api-key''])],
               (Some [\<lparr>PublicKeyBytes = [1], Weight = 7, NodeIDs = [[1]]\<rparr>], 7, None))"
    by (simp add: exampleLib_def exampleValidatorClient_def)
  have bad: "GetCanonicalValidatorSet exampleLib Background exampleValidatorClient
              (ProposedHeight exampleLib) [3]
            = ([Rpc (CallGetValidatorsAt Background [3] (- 1) [''api-key''])],
               (Some [], 3, Some EmptySubnet))"
    by (simp add: exampleLib_def exampleValidatorClient_def)
  from GetCurrentCanonicalValidatorSet_passthrough
         [of exampleLib exampleValidatorClient "[1]" _ _ _ "EmptySubnet"] ok
  have a: "GetCurrentCanonicalValidatorSet exampleLib exampleValidatorClient [1]
     = ([Rpc (CallGetValidatorsAt Background [1] (- 1) [''api-key''])],
        (Some [\<lparr>PublicKeyBytes = [1], Weight = 7, NodeIDs = [[1]]\<rparr>], 7, None))"
    by blast
  from GetCurrentCanonicalValidatorSet_passthrough
         [of exampleLib exampleValidatorClient "[3]" _ _ _ "EmptySubnet"] bad
  have b: "snd (GetCurrentCanonicalValidatorSet exampleLib exampleValidatorClient [3])
     = (None, 0, Some EmptySubnet)"
    by blast
  from a b show ?thesis by simp
qed

text \<open>
  C7: \<open>GetSubnetID\<close> issues the one \<open>ValidatedBy\<close> query for the given blockchain
  identity and returns its result, value and error, unchanged.
\<close>

theorem GetSubnetID_passthrough:
  "GetSubnetID v ctx blockchainID =
     ([Rpc (CallValidatedBy ctx blockchainID (options v))],
      ValidatedBy (client v) ctx blockchainID (options v))"
  by (simp add: GetSubnetID_def)

text \<open>
  C9: \<open>GetCurrentValidatorSet\<close> is a stub: for every client, context and subnet it
  returns \<open>(nil, 0, nil)\<close> and issues no query and no log entry.
\<close>

theorem GetCurrentValidatorSet_stub:
  "GetCurrentValidatorSet v ctx subnetID = ([], (None, 0, None))"
  by (simp add: GetCurrentValidatorSet_def)

section \<open>Properties of the canonical set's total weight\<close>

text \<open>
  C3 as stated fails: \<open>GetCurrentCanonicalValidatorSet\<close> neither computes nor checks the
  total weight, it forwards the pair of the library's canonical-set computation. On the
  example library's answer for subnet 2 (one listed validator of weight 1 and a total
  weight of 5, as when the total also counts a validator of weight 4 that the list
  leaves out) the returned total is 5 and the listed weights sum to 1.
\<close>

theorem GetCurrentCanonicalValidatorSet_weight_counterexample:
  "snd (GetCurrentCanonicalValidatorSet exampleLib exampleValidatorClient [2])
     = (Some [\<lparr>PublicKeyBytes = [1], Weight = 1, NodeIDs = [[1]]\<rparr>], 5, None)
   \<and> memberWeightSum (Some [\<lparr>PublicKeyBytes = [1], Weight = 1, NodeIDs = [[1]]\<rparr>])
       \<noteq> unat (5 :: uint64)"
  by (simp add: GetCurrentCanonicalValidatorSet_def exampleLib_def memberWeightSum_def)

text \<open>
  The library's loop on two validators with public keys, and on one validator with a
  public key and one without (the second gives the pair of the example above: one
  listed validator of weight 1, total weight 5).
\<close>

lemma canonical_subnet1:
  "canonicalValidatorSetOf
     [\<lparr>outNodeID = [2], outPublicKey = Some [9], outWeight = 4\<rparr>,
      \<lparr>outNodeID = [1], outPublicKey = Some [8], outWeight = 3\<rparr>]
   = (Some [\<lparr>PublicKeyBytes = [8], Weight = 3, NodeIDs = [[1]]\<rparr>,
            \<lparr>PublicKeyBytes = [9], Weight = 4, NodeIDs = [[2]]\<rparr>], 7, None)"
  by (simp add: canonicalValidatorSetOf_def)

lemma canonical_subnet2:
  "canonicalValidatorSetOf
     [\<lparr>outNodeID = [1], outPublicKey = Some [8], outWeight = 1\<rparr>,
      \<lparr>outNodeID = [3], outPublicKey = None, outWeight = 4\<rparr>]
   = (Some [\<lparr>PublicKeyBytes = [8], Weight = 1, NodeIDs = [[1]]\<rparr>], 5, None)"
  by (simp add: canonicalValidatorSetOf_def)

lemma listWeight_insertValidator:
  "sum_list (map (\<lambda>x. unat (Weight x)) (insertValidator u ws))
     = unat (Weight u) + sum_list (map (\<lambda>x. unat (Weight x)) ws)"
  by (induction ws) auto

lemma listWeight_sortValidators:
  "sum_list (map (\<lambda>x. unat (Weight x)) (sortValidators us))
     = sum_list (map (\<lambda>x. unat (Weight x)) us)"
  by (induction us) (auto simp: listWeight_insertValidator)

lemma unat_add_no_overflow:
  fixes a b :: uint64
  assumes "unat a + unat b < 2 ^ 64"
  shows "unat (a + b) = unat a + unat b"
  using assms by (simp add: unat_add_lem [THEN iffD1])

lemma listWeight_addValidator:
  "sum_list (map (\<lambda>x. unat (Weight x)) us) + unat (outWeight vdr) < 2 ^ 64
   \<Longrightarrow> sum_list (map (\<lambda>x. unat (Weight x)) (addValidator pk vdr us))
       = sum_list (map (\<lambda>x. unat (Weight x)) us) + unat (outWeight vdr)"
proof (induction us)
  case Nil
  then show ?case by simp
next
  case (Cons u us)
  show ?case
  proof (cases "PublicKeyBytes u = pk")
    case True
    from Cons.prems have "unat (Weight u) + unat (outWeight vdr) < 2 ^ 64" by simp
    then have "unat (Weight u + outWeight vdr) = unat (Weight u) + unat (outWeight vdr)"
      by (rule unat_add_no_overflow)
    with True show ?thesis by simp
  next
    case False
    from Cons.prems
    have "sum_list (map (\<lambda>x. unat (Weight x)) us) + unat (outWeight vdr) < 2 ^ 64"
      by simp
    with Cons.IH False show ?thesis by simp
  qed
qed

lemma canonicalLoop_weights:
  "sum_list (map (\<lambda>x. unat (Weight x)) vdrs) \<le> unat tw0
   \<Longrightarrow> unat tw0 + entriesWeight entries < 2 ^ 64
   \<Longrightarrow> \<exists>vals tw. canonicalLoop entries vdrs tw0 = (Some vals, tw, None)
         \<and> unat tw = unat tw0 + entriesWeight entries
         \<and> sum_list (map (\<lambda>x. unat (Weight x)) vals) + keylessWeight entries
             = sum_list (map (\<lambda>x. unat (Weight x)) vdrs) + entriesWeight entries"
proof (induction entries arbitrary: vdrs tw0)
  case Nil
  then show ?case
    by (simp add: entriesWeight_def keylessWeight_def listWeight_sortValidators)
next
  case (Cons vdr rest)
  from Cons.prems(2)
  have small: "unat tw0 + unat (outWeight vdr) < 2 ^ 64"
    and rest: "unat tw0 + unat (outWeight vdr) + entriesWeight rest < 2 ^ 64"
    by (simp_all add: entriesWeight_def)
  from small have step: "unat (tw0 + outWeight vdr) = unat tw0 + unat (outWeight vdr)"
    by (rule unat_add_no_overflow)
  from rest step have rest': "unat (tw0 + outWeight vdr) + entriesWeight rest < 2 ^ 64"
    by simp
  show ?case
  proof (cases "outPublicKey vdr")
    case None
    from Cons.prems(1) step
    have inv: "sum_list (map (\<lambda>x. unat (Weight x)) vdrs) \<le> unat (tw0 + outWeight vdr)"
      by simp
    from Cons.IH [OF inv rest'] obtain vals tw where
      "canonicalLoop rest vdrs (tw0 + outWeight vdr) = (Some vals, tw, None)"
      "unat tw = unat (tw0 + outWeight vdr) + entriesWeight rest"
      "sum_list (map (\<lambda>x. unat (Weight x)) vals) + keylessWeight rest
         = sum_list (map (\<lambda>x. unat (Weight x)) vdrs) + entriesWeight rest"
      by blast
    with None small step show ?thesis
      by (simp add: entriesWeight_def keylessWeight_def)
  next
    case (Some pk)
    from Cons.prems(1) small
    have fits: "sum_list (map (\<lambda>x. unat (Weight x)) vdrs) + unat (outWeight vdr) < 2 ^ 64"
      by simp
    have added: "sum_list (map (\<lambda>x. unat (Weight x)) (addValidator pk vdr vdrs))
                  = sum_list (map (\<lambda>x. unat (Weight x)) vdrs) + unat (outWeight vdr)"
      using fits by (rule listWeight_addValidator)
    from added Cons.prems(1) step
    have inv: "sum_list (map (\<lambda>x. unat (Weight x)) (addValidator pk vdr vdrs))
                 \<le> unat (tw0 + outWeight vdr)"
      by simp
    from Cons.IH [OF inv rest'] obtain vals tw where
      "canonicalLoop rest (addValidator pk vdr vdrs) (tw0 + outWeight vdr)
         = (Some vals, tw, None)"
      "unat tw = unat (tw0 + outWeight vdr) + entriesWeight rest"
      "sum_list (map (\<lambda>x. unat (Weight x)) vals) + keylessWeight rest
         = sum_list (map (\<lambda>x. unat (Weight x)) (addValidator pk vdr vdrs))
           + entriesWeight rest"
      by blast
    with Some small step added show ?thesis
      by (simp add: entriesWeight_def keylessWeight_def)
  qed
qed

lemma canonicalValidatorSetOf_weights:
  assumes "entriesWeight entries < 2 ^ 64"
  shows "\<exists>vals tw. canonicalValidatorSetOf entries = (Some vals, tw, None)
         \<and> unat tw = entriesWeight entries
         \<and> unat tw = memberWeightSum (Some vals) + keylessWeight entries"
proof -
  have "\<exists>vals tw. canonicalLoop entries [] 0 = (Some vals, tw, None)
         \<and> unat tw = unat (0 :: uint64) + entriesWeight entries
         \<and> sum_list (map (\<lambda>x. unat (Weight x)) vals) + keylessWeight entries
             = sum_list (map (\<lambda>x. unat (Weight x)) ([] :: WarpValidator list))
               + entriesWeight entries"
    by (rule canonicalLoop_weights) (use assms in simp_all)
  then show ?thesis
    by (auto simp add: canonicalValidatorSetOf_def memberWeightSum_def)
qed

lemma canonicalLoop_overflow:
  "2 ^ 64 \<le> unat tw0 + entriesWeight entries
   \<Longrightarrow> canonicalLoop entries vdrs tw0 = (None, 0, Some (OtherError ''weight overflow''))"
proof (induction entries arbitrary: vdrs tw0)
  case Nil
  have "unat tw0 < 2 ^ 64" using unsigned_less [of tw0] by simp
  with Nil show ?case by (simp add: entriesWeight_def)
next
  case (Cons vdr rest)
  show ?case
  proof (cases "2 ^ 64 \<le> unat tw0 + unat (outWeight vdr)")
    case True
    then show ?thesis by simp
  next
    case False
    then have "unat (tw0 + outWeight vdr) = unat tw0 + unat (outWeight vdr)"
      by (simp add: unat_add_no_overflow)
    with Cons.prems have "2 ^ 64 \<le> unat (tw0 + outWeight vdr) + entriesWeight rest"
      by (simp add: entriesWeight_def)
    from Cons.IH [OF this] False show ?thesis
      by (simp split: option.splits)
  qed
qed

text \<open>
  C3, amended: when the library's canonical-set computation at the proposed height is
  the loop above run on the validators of the subnet, and their weights fit 64 bits,
  \<open>GetCurrentCanonicalValidatorSet\<close> returns a validator list and a total weight with a
  \<open>nil\<close> error, where the total weight is the sum of the weights of all the validators
  of the subnet. It is the sum of the returned validators' weights plus the weight of
  the validators without a public key: never less than the sum of the returned
  weights, and equal to it exactly when the validators without a public key carry no
  weight. When the weights overflow 64 bits, or the library fails in any other way,
  the result is \<open>(nil, 0)\<close> with the library's error, and the total 0 is the sum over
  the empty result.
\<close>

theorem GetCurrentCanonicalValidatorSet_total_weight:
  "(GetCanonicalValidatorSet lib Background v (ProposedHeight lib) subnetID
      = (evs, canonicalValidatorSetOf entries)
    \<and> entriesWeight entries < 2 ^ 64
    \<longrightarrow> (\<exists>vals tw.
          snd (GetCurrentCanonicalValidatorSet lib v subnetID) = (Some vals, tw, None)
          \<and> unat tw = entriesWeight entries
          \<and> unat tw = memberWeightSum (Some vals) + keylessWeight entries
          \<and> memberWeightSum (Some vals) \<le> unat tw
          \<and> (memberWeightSum (Some vals) = unat tw \<longleftrightarrow> keylessWeight entries = 0)))
   \<and> (GetCanonicalValidatorSet lib Background v (ProposedHeight lib) subnetID
      = (evs, canonicalValidatorSetOf entries)
    \<and> 2 ^ 64 \<le> entriesWeight entries
    \<longrightarrow> snd (GetCurrentCanonicalValidatorSet lib v subnetID)
          = (None, 0, Some (OtherError ''weight overflow'')))
   \<and> (GetCanonicalValidatorSet lib Background v (ProposedHeight lib) subnetID
      = (evs, upstreamVals, upstreamWeight, Some e)
    \<longrightarrow> snd (GetCurrentCanonicalValidatorSet lib v subnetID) = (None, 0, Some e)
        \<and> memberWeightSum None = unat (0 :: uint64))"
proof -
  have ok: "GetCanonicalValidatorSet lib Background v (ProposedHeight lib) subnetID
      = (evs, canonicalValidatorSetOf entries)
    \<and> entriesWeight entries < 2 ^ 64
    \<longrightarrow> (\<exists>vals tw.
          snd (GetCurrentCanonicalValidatorSet lib v subnetID) = (Some vals, tw, None)
          \<and> unat tw = entriesWeight entries
          \<and> unat tw = memberWeightSum (Some vals) + keylessWeight entries
          \<and> memberWeightSum (Some vals) \<le> unat tw
          \<and> (memberWeightSum (Some vals) = unat tw \<longleftrightarrow> keylessWeight entries = 0))"
  proof
    assume h: "GetCanonicalValidatorSet lib Background v (ProposedHeight lib) subnetID
      = (evs, canonicalValidatorSetOf entries) \<and> entriesWeight entries < 2 ^ 64"
    then obtain vals tw where c: "canonicalValidatorSetOf entries = (Some vals, tw, None)"
      and t: "unat tw = entriesWeight entries"
      and s: "unat tw = memberWeightSum (Some vals) + keylessWeight entries"
      using canonicalValidatorSetOf_weights [of entries] by blast
    from h c have "snd (GetCurrentCanonicalValidatorSet lib v subnetID) = (Some vals, tw, None)"
      by (simp add: GetCurrentCanonicalValidatorSet_def)
    with t s show "\<exists>vals tw.
          snd (GetCurrentCanonicalValidatorSet lib v subnetID) = (Some vals, tw, None)
          \<and> unat tw = entriesWeight entries
          \<and> unat tw = memberWeightSum (Some vals) + keylessWeight entries
          \<and> memberWeightSum (Some vals) \<le> unat tw
          \<and> (memberWeightSum (Some vals) = unat tw \<longleftrightarrow> keylessWeight entries = 0)"
      by auto
  qed
  have over: "GetCanonicalValidatorSet lib Background v (ProposedHeight lib) subnetID
      = (evs, canonicalValidatorSetOf entries)
    \<and> 2 ^ 64 \<le> entriesWeight entries
    \<longrightarrow> snd (GetCurrentCanonicalValidatorSet lib v subnetID)
          = (None, 0, Some (OtherError ''weight overflow''))"
  proof
    assume h: "GetCanonicalValidatorSet lib Background v (ProposedHeight lib) subnetID
      = (evs, canonicalValidatorSetOf entries) \<and> 2 ^ 64 \<le> entriesWeight entries"
    then have "2 ^ 64 \<le> unat (0 :: uint64) + entriesWeight entries" by simp
    then have "canonicalValidatorSetOf entries = (None, 0, Some (OtherError ''weight overflow''))"
      unfolding canonicalValidatorSetOf_def by (rule canonicalLoop_overflow)
    with h show "snd (GetCurrentCanonicalValidatorSet lib v subnetID)
          = (None, 0, Some (OtherError ''weight overflow''))"
      by (simp add: GetCurrentCanonicalValidatorSet_def)
  qed
  have fail: "GetCanonicalValidatorSet lib Background v (ProposedHeight lib) subnetID
      = (evs, upstreamVals, upstreamWeight, Some e)
    \<longrightarrow> snd (GetCurrentCanonicalValidatorSet lib v subnetID) = (None, 0, Some e)
        \<and> memberWeightSum None = unat (0 :: uint64)"
    by (simp add: GetCurrentCanonicalValidatorSet_def memberWeightSum_def)
  from ok over fail show ?thesis by blast
qed

theorem GetCurrentCanonicalValidatorSet_total_weight_witness:
  "(\<exists>vals tw.
      snd (GetCurrentCanonicalValidatorSet canonicalLib exampleValidatorClient [1])
        = (Some vals, tw, None)
      \<and> unat tw = 7 \<and> memberWeightSum (Some vals) = 7)
   \<and> (\<exists>vals tw.
      snd (GetCurrentCanonicalValidatorSet canonicalLib exampleValidatorClient [2])
        = (Some vals, tw, None)
      \<and> unat tw = 5 \<and> memberWeightSum (Some vals) = 1)
   \<and> snd (GetCurrentCanonicalValidatorSet canonicalLib exampleValidatorClient [4])
       = (None, 0, Some (OtherError ''weight overflow''))
   \<and> snd (GetCurrentCanonicalValidatorSet canonicalLib exampleValidatorClient [3])
       = (None, 0, Some EmptySubnet)"
proof -
  let ?call = "\<lambda>s. GetCanonicalValidatorSet canonicalLib Background exampleValidatorClient
                      (ProposedHeight canonicalLib) s"
  let ?rpc = "\<lambda>s. [Rpc (CallGetValidatorsAt Background s (- 1) [''api-key''])]"
  let ?e1 = "[\<lparr>outNodeID = [2], outPublicKey = Some [9], outWeight = 4\<rparr>,
              \<lparr>outNodeID = [1], outPublicKey = Some [8], outWeight = 3\<rparr>]"
  let ?e2 = "[\<lparr>outNodeID = [1], outPublicKey = Some [8], outWeight = 1\<rparr>,
              \<lparr>outNodeID = [3], outPublicKey = None, outWeight = 4\<rparr>]"
  let ?e4 = "[\<lparr>outNodeID = [1], outPublicKey = Some [8], outWeight = 18446744073709551615\<rparr>,
              \<lparr>outNodeID = [2], outPublicKey = Some [9], outWeight = 1\<rparr>]"
  have c1: "?call [1] = (?rpc [1], canonicalValidatorSetOf ?e1)"
    by (simp add: canonicalLib_def exampleValidatorClient_def)
  have c2: "?call [2] = (?rpc [2], canonicalValidatorSetOf ?e2)"
    by (simp add: canonicalLib_def exampleValidatorClient_def)
  have c4: "?call [4] = (?rpc [4], canonicalValidatorSetOf ?e4)"
    by (simp add: canonicalLib_def exampleValidatorClient_def)
  have c3: "?call [3] = (?rpc [3], None, 0, Some EmptySubnet)"
    by (simp add: canonicalLib_def exampleValidatorClient_def)
  have w1: "entriesWeight ?e1 = 7" "keylessWeight ?e1 = 0"
    by (simp_all add: entriesWeight_def keylessWeight_def)
  have w2: "entriesWeight ?e2 = 5" "keylessWeight ?e2 = 4"
    by (simp_all add: entriesWeight_def keylessWeight_def)
  have w4: "entriesWeight ?e4 = 2 ^ 64"
    by (simp add: entriesWeight_def)
  note inst = GetCurrentCanonicalValidatorSet_total_weight
      [where lib = canonicalLib and v = exampleValidatorClient and upstreamVals = None
         and upstreamWeight = 0 and e = EmptySubnet]
  have p1: "?call [1] = (?rpc [1], canonicalValidatorSetOf ?e1) \<and> entriesWeight ?e1 < 2 ^ 64"
    using c1 by (simp only: w1) simp
  have p2: "?call [2] = (?rpc [2], canonicalValidatorSetOf ?e2) \<and> entriesWeight ?e2 < 2 ^ 64"
    using c2 by (simp only: w2) simp
  have p4: "?call [4] = (?rpc [4], canonicalValidatorSetOf ?e4) \<and> 2 ^ 64 \<le> entriesWeight ?e4"
    using c4 by (simp only: w4) simp
  from inst [where subnetID = "[1]" and evs = "?rpc [1]" and entries = "?e1",
             THEN conjunct1, THEN mp, OF p1]
  obtain vals1 tw1 where
    r1: "snd (GetCurrentCanonicalValidatorSet canonicalLib exampleValidatorClient [1])
           = (Some vals1, tw1, None)"
    and t1: "unat tw1 = entriesWeight ?e1"
    and s1: "unat tw1 = memberWeightSum (Some vals1) + keylessWeight ?e1"
    by blast
  from t1 s1 w1 have "unat tw1 = 7" "memberWeightSum (Some vals1) = 7" by linarith+
  with r1 have a: "\<exists>vals tw.
      snd (GetCurrentCanonicalValidatorSet canonicalLib exampleValidatorClient [1])
        = (Some vals, tw, None)
      \<and> unat tw = 7 \<and> memberWeightSum (Some vals) = 7"
    by blast
  from inst [where subnetID = "[2]" and evs = "?rpc [2]" and entries = "?e2",
             THEN conjunct1, THEN mp, OF p2]
  obtain vals2 tw2 where
    r2: "snd (GetCurrentCanonicalValidatorSet canonicalLib exampleValidatorClient [2])
           = (Some vals2, tw2, None)"
    and t2: "unat tw2 = entriesWeight ?e2"
    and s2: "unat tw2 = memberWeightSum (Some vals2) + keylessWeight ?e2"
    by blast
  from t2 s2 w2 have "unat tw2 = 5" "memberWeightSum (Some vals2) = 1" by linarith+
  with r2 have b: "\<exists>vals tw.
      snd (GetCurrentCanonicalValidatorSet canonicalLib exampleValidatorClient [2])
        = (Some vals, tw, None)
      \<and> unat tw = 5 \<and> memberWeightSum (Some vals) = 1"
    by blast
  have c: "snd (GetCurrentCanonicalValidatorSet canonicalLib exampleValidatorClient [4])
       = (None, 0, Some (OtherError ''weight overflow''))"
    using inst [where subnetID = "[4]" and evs = "?rpc [4]" and entries = "?e4",
                THEN conjunct2, THEN conjunct1, THEN mp, OF p4] .
  have d: "snd (GetCurrentCanonicalValidatorSet canonicalLib exampleValidatorClient [3])
       = (None, 0, Some EmptySubnet)"
    using inst [where subnetID = "[3]" and evs = "?rpc [3]" and entries = "[]",
                THEN conjunct2, THEN conjunct2, THEN mp, OF c3]
    by (rule conjunct1)
  from a b c d show ?thesis by blast
qed

section \<open>Properties of the Quorum Evaluator\<close>

lemma attestedWeight_acc:
  "attestedWeight vs attestations acc =
     acc + sum_list (map stakeWeight (filter (\<lambda>v. attestations (nodeIdentity v) \<noteq> None) vs))"
  by (induction vs arbitrary: acc) (auto split: option.splits)

lemma attestedWeight_commonWeight:
  "attestedWeight (members validatorSet) attestations 0 = commonWeight validatorSet attestations"
  by (simp add: attestedWeight_acc commonWeight_def)

lemma scenario_40_30: "commonWeight scenarioSet attestations_40_30 = 70"
  by (simp add: commonWeight_def scenarioSet_def attestations_40_30_def
      validator40_def validator30_def validator20_def validator10_def)

lemma scenario_40_20: "commonWeight scenarioSet attestations_40_20 = 60"
  by (simp add: commonWeight_def scenarioSet_def attestations_40_20_def
      validator40_def validator30_def validator20_def validator10_def)

text \<open>
  C4: \<open>hasQuorum\<close> is true exactly when the stake weight of the validators that are both
  in the set and in the attestation collection is at least the required fraction of the
  set's total weight; a sum exactly at the fraction gives true. For weights 40, 30, 20,
  10 (total 100) and fraction 0.67, attestations from the 40- and 30-weight validators
  give true, and attestations from the 40- and 20-weight validators give false.
\<close>

theorem hasQuorum_threshold:
  "(hasQuorum validatorSet attestations requirement
      \<longleftrightarrow> of_nat (commonWeight validatorSet attestations)
            \<ge> fraction requirement * of_nat (totalWeight validatorSet))
   \<and> (of_nat (commonWeight validatorSet attestations)
         = fraction requirement * of_nat (totalWeight validatorSet)
       \<longrightarrow> hasQuorum validatorSet attestations requirement)
   \<and> hasQuorum scenarioSet attestations_40_30 requirement67
   \<and> \<not> hasQuorum scenarioSet attestations_40_20 requirement67"
proof -
  have iff: "\<And>S A R. hasQuorum S A R
      \<longleftrightarrow> of_nat (commonWeight S A) \<ge> fraction R * of_nat (totalWeight S)"
    by (simp add: hasQuorum_def attestedWeight_commonWeight)
  have a: "hasQuorum scenarioSet attestations_40_30 requirement67"
    by (simp add: iff scenario_40_30) (simp add: scenarioSet_def requirement67_def)
  have b: "\<not> hasQuorum scenarioSet attestations_40_20 requirement67"
    by (simp add: iff scenario_40_20) (simp add: scenarioSet_def requirement67_def)
  from iff a b show ?thesis by simp
qed

theorem hasQuorum_threshold_witness:
  "of_nat (commonWeight scenarioSet attestations_40_30)
     = fraction requirement70 * of_nat (totalWeight scenarioSet)
   \<and> hasQuorum scenarioSet attestations_40_30 requirement70"
proof -
  have h: "of_nat (commonWeight scenarioSet attestations_40_30)
     = fraction requirement70 * of_nat (totalWeight scenarioSet)"
    by (simp add: scenario_40_30) (simp add: scenarioSet_def requirement70_def)
  from hasQuorum_threshold [of scenarioSet attestations_40_30 requirement70] h
  show ?thesis by blast
qed

section \<open>Properties of the Admission Filter\<close>

text \<open>
  C5: a message whose origin sender is outside the explicit allow-list of its source
  chain is not admitted, whatever its destination chain and address; a message whose
  destination address is outside the explicit allow-list of its destination chain is
  not admitted, whatever its sender; and a wildcard admits every address on its side, so
  that admission is then decided by the other side alone.
\<close>

theorem isAdmitted_allow_lists:
  "(sourceChains config (sourceChain message) = Some (Explicit senders)
      \<and> originSenderAddress message \<notin> senders
    \<longrightarrow> \<not> isAdmitted config
            (message\<lparr>destinationChain := dst, destinationAddress := receiver\<rparr>))
   \<and> (destinationChains config (destinationChain message) = Some (Explicit receivers)
      \<and> destinationAddress message \<notin> receivers
    \<longrightarrow> \<not> isAdmitted config
            (message\<lparr>sourceChain := src, originSenderAddress := sender\<rparr>))
   \<and> (sourceChains config (sourceChain message) = Some Wildcard
    \<longrightarrow> sourceAdmits config (message\<lparr>originSenderAddress := sender\<rparr>)
        \<and> (isAdmitted config (message\<lparr>originSenderAddress := sender\<rparr>)
             \<longleftrightarrow> destinationAdmits config message))
   \<and> (destinationChains config (destinationChain message) = Some Wildcard
    \<longrightarrow> destinationAdmits config (message\<lparr>destinationAddress := receiver\<rparr>)
        \<and> (isAdmitted config (message\<lparr>destinationAddress := receiver\<rparr>)
             \<longleftrightarrow> sourceAdmits config message))"
  by (auto simp add: isAdmitted_def sourceAdmits_def destinationAdmits_def
      split: option.splits)

theorem isAdmitted_allow_lists_witness:
  "\<not> isAdmitted scenarioConfig (observed [1] ''0xBBB'' [3] ''0xDDD'')
   \<and> \<not> isAdmitted scenarioConfig (observed [2] ''0xBBB'' [4] ''0xDDD'')
   \<and> isAdmitted scenarioConfig (observed [2] ''0xBBB'' [4] ''0xCCC'')
   \<and> isAdmitted scenarioConfig (observed [1] ''0xAAA'' [3] ''0xDDD'')"
proof -
  have s1: "sourceChains scenarioConfig (sourceChain (observed [1] ''0xBBB'' [4] ''0xCCC''))
              = Some (Explicit {''0xAAA''})
            \<and> originSenderAddress (observed [1] ''0xBBB'' [4] ''0xCCC'') \<notin> {''0xAAA''}"
    by (simp add: scenarioConfig_def observed_def)
  have d1: "destinationChains scenarioConfig
              (destinationChain (observed [1] ''0xAAA'' [4] ''0xDDD''))
              = Some (Explicit {''0xCCC''})
            \<and> destinationAddress (observed [1] ''0xAAA'' [4] ''0xDDD'') \<notin> {''0xCCC''}"
    by (simp add: scenarioConfig_def observed_def)
  have s2: "sourceChains scenarioConfig (sourceChain (observed [2] ''0xAAA'' [4] ''0xCCC''))
              = Some Wildcard"
    by (simp add: scenarioConfig_def observed_def)
  have d2: "destinationChains scenarioConfig
              (destinationChain (observed [1] ''0xAAA'' [3] ''0xCCC'')) = Some Wildcard"
    by (simp add: scenarioConfig_def observed_def)
  have dOK: "destinationAdmits scenarioConfig (observed [2] ''0xAAA'' [4] ''0xCCC'')"
    by (simp add: destinationAdmits_def scenarioConfig_def observed_def)
  have sOK: "sourceAdmits scenarioConfig (observed [1] ''0xAAA'' [3] ''0xCCC'')"
    by (simp add: sourceAdmits_def scenarioConfig_def observed_def)
  note thm1 = isAdmitted_allow_lists
      [where config = scenarioConfig and message = "observed [1] ''0xBBB'' [4] ''0xCCC''"
         and senders = "{''0xAAA''}" and dst = "[3]" and receiver = "''0xDDD''"]
  note thm2 = isAdmitted_allow_lists
      [where config = scenarioConfig and message = "observed [1] ''0xAAA'' [4] ''0xDDD''"
         and receivers = "{''0xCCC''}" and src = "[2]" and sender = "''0xBBB''"]
  note thm3 = isAdmitted_allow_lists
      [where config = scenarioConfig and message = "observed [2] ''0xAAA'' [4] ''0xCCC''"
         and sender = "''0xBBB''"]
  note thm4 = isAdmitted_allow_lists
      [where config = scenarioConfig and message = "observed [1] ''0xAAA'' [3] ''0xCCC''"
         and receiver = "''0xDDD''"]
  have a: "\<not> isAdmitted scenarioConfig (observed [1] ''0xBBB'' [3] ''0xDDD'')"
    using thm1 s1 by (simp add: observed_def)
  have b: "\<not> isAdmitted scenarioConfig (observed [2] ''0xBBB'' [4] ''0xDDD'')"
    using thm2 d1 by (simp add: observed_def)
  have c: "isAdmitted scenarioConfig (observed [2] ''0xBBB'' [4] ''0xCCC'')"
    using thm3 s2 dOK by (simp add: observed_def)
  have d: "isAdmitted scenarioConfig (observed [1] ''0xAAA'' [3] ''0xDDD'')"
    using thm4 d2 sOK by (simp add: observed_def)
  from a b c d show ?thesis by simp
qed

section \<open>Properties of the metrics constructor\<close>

text \<open>
  C10 as stated fails: with a constructor that always builds a vector and a registerer
  that accepts both registrations, \<open>NewAppRequestNetworkMetrics\<close> still does not return
  for a \<open>nil\<close> configuration, nor for a configuration whose info or P-chain API entry is
  \<open>nil\<close>: it panics when it reads the base URLs.
\<close>

theorem NewAppRequestNetworkMetrics_nil_config_counterexample:
  "MustRegister exampleRegisterer (registry exampleRegisterer)
       \<lparr>gaugeOpts = infoAPICallLatencyOpts, labelNames = [''info_api_base_url'']\<rparr>
     = Some [''info_api_call_latency_ms'']
   \<and> MustRegister exampleRegisterer [''info_api_call_latency_ms'']
       \<lparr>gaugeOpts = pChainAPICallLatencyOpts, labelNames = [''p_chain_api_base_url'']\<rparr>
     = Some [''p_chain_api_call_latency_ms'', ''info_api_call_latency_ms'']
   \<and> NewAppRequestNetworkMetrics exampleNewGaugeVec None exampleRegisterer = Panic
   \<and> NewAppRequestNetworkMetrics exampleNewGaugeVec
       (Some \<lparr>InfoAPI = None, PChainAPI = Some \<lparr>BaseURL = ''http://pchain''\<rparr>\<rparr>)
       exampleRegisterer = Panic
   \<and> NewAppRequestNetworkMetrics exampleNewGaugeVec
       (Some \<lparr>InfoAPI = Some \<lparr>BaseURL = ''http://info''\<rparr>, PChainAPI = None\<rparr>)
       exampleRegisterer = Panic"
  by (simp add: NewAppRequestNetworkMetrics_def exampleNewGaugeVec_def exampleRegisterer_def
      infoAPICallLatencyOpts_def pChainAPICallLatencyOpts_def)

text \<open>
  C10, amended: with a gauge-vector constructor that always yields a non-nil vector,
  \<open>NewAppRequestNetworkMetrics\<close> never returns
  \<open>ErrFailedToCreateAppRequestNetworkMetrics\<close>, for any configuration and registerer.
  When the two registrations do not panic, it returns the metrics struct with both
  gauges and a \<open>nil\<close> error for every non-nil configuration whose info and P-chain API
  entries are non-nil, and it panics for a \<open>nil\<close> configuration or a \<open>nil\<close> API entry.
\<close>

theorem NewAppRequestNetworkMetrics_outcome:
  assumes "\<forall>opts labels. NewGaugeVec opts labels \<noteq> None"
  shows "(\<forall>r m. NewAppRequestNetworkMetrics NewGaugeVec cfg registerer
            \<noteq> Returns (r, m, Some ErrFailedToCreateAppRequestNetworkMetrics))
    \<and> (NewGaugeVec infoAPICallLatencyOpts [''info_api_base_url''] = Some infoGauge
       \<and> MustRegister registerer (registry registerer) infoGauge = Some regInfo
       \<and> NewGaugeVec pChainAPICallLatencyOpts [''p_chain_api_base_url''] = Some pChainGauge
       \<and> MustRegister registerer regInfo pChainGauge = Some regPChain
       \<and> cfg = Some c \<and> InfoAPI c = Some infoAPI \<and> PChainAPI c = Some pChainAPI
     \<longrightarrow> NewAppRequestNetworkMetrics NewGaugeVec cfg registerer
           = Returns (registerer\<lparr>registry := regPChain\<rparr>,
                      Some \<lparr>infoAPIBaseURL = BaseURL infoAPI,
                            pChainAPIBaseURL = BaseURL pChainAPI,
                            infoAPICallLatencyMS = Some infoGauge,
                            pChainAPICallLatencyMS = Some pChainGauge\<rparr>,
                      None))
    \<and> (NewGaugeVec infoAPICallLatencyOpts [''info_api_base_url''] = Some infoGauge
       \<and> MustRegister registerer (registry registerer) infoGauge = Some regInfo
       \<and> NewGaugeVec pChainAPICallLatencyOpts [''p_chain_api_base_url''] = Some pChainGauge
       \<and> MustRegister registerer regInfo pChainGauge = Some regPChain
       \<and> (cfg = None \<or> (\<exists>c'. cfg = Some c' \<and> (InfoAPI c' = None \<or> PChainAPI c' = None)))
     \<longrightarrow> NewAppRequestNetworkMetrics NewGaugeVec cfg registerer = Panic)"
proof -
  obtain g1 where g1: "NewGaugeVec infoAPICallLatencyOpts [''info_api_base_url''] = Some g1"
    using assms by (meson option.exhaust)
  obtain g2 where g2: "NewGaugeVec pChainAPICallLatencyOpts [''p_chain_api_base_url''] = Some g2"
    using assms by (meson option.exhaust)
  have never: "\<forall>r m. NewAppRequestNetworkMetrics NewGaugeVec cfg registerer
            \<noteq> Returns (r, m, Some ErrFailedToCreateAppRequestNetworkMetrics)"
    by (simp add: NewAppRequestNetworkMetrics_def g1 g2 split: option.splits)
  have returns: "NewGaugeVec infoAPICallLatencyOpts [''info_api_base_url''] = Some infoGauge
       \<and> MustRegister registerer (registry registerer) infoGauge = Some regInfo
       \<and> NewGaugeVec pChainAPICallLatencyOpts [''p_chain_api_base_url''] = Some pChainGauge
       \<and> MustRegister registerer regInfo pChainGauge = Some regPChain
       \<and> cfg = Some c \<and> InfoAPI c = Some infoAPI \<and> PChainAPI c = Some pChainAPI
     \<longrightarrow> NewAppRequestNetworkMetrics NewGaugeVec cfg registerer
           = Returns (registerer\<lparr>registry := regPChain\<rparr>,
                      Some \<lparr>infoAPIBaseURL = BaseURL infoAPI,
                            pChainAPIBaseURL = BaseURL pChainAPI,
                            infoAPICallLatencyMS = Some infoGauge,
                            pChainAPICallLatencyMS = Some pChainGauge\<rparr>,
                      None)"
    by (simp add: NewAppRequestNetworkMetrics_def)
  have panics: "NewGaugeVec infoAPICallLatencyOpts [''info_api_base_url''] = Some infoGauge
       \<and> MustRegister registerer (registry registerer) infoGauge = Some regInfo
       \<and> NewGaugeVec pChainAPICallLatencyOpts [''p_chain_api_base_url''] = Some pChainGauge
       \<and> MustRegister registerer regInfo pChainGauge = Some regPChain
       \<and> (cfg = None \<or> (\<exists>c'. cfg = Some c' \<and> (InfoAPI c' = None \<or> PChainAPI c' = None)))
     \<longrightarrow> NewAppRequestNetworkMetrics NewGaugeVec cfg registerer = Panic"
    by (auto simp add: NewAppRequestNetworkMetrics_def split: option.splits)
  from never returns panics show ?thesis by blast
qed

theorem NewAppRequestNetworkMetrics_outcome_witness:
  "(\<forall>opts labels. exampleNewGaugeVec opts labels \<noteq> None)
   \<and> NewAppRequestNetworkMetrics exampleNewGaugeVec (Some exampleConfig) exampleRegisterer
       = Returns
           (exampleRegisterer
              \<lparr>registry := [''p_chain_api_call_latency_ms'', ''info_api_call_latency_ms'']\<rparr>,
            Some \<lparr>infoAPIBaseURL = ''http://info'',
                  pChainAPIBaseURL = ''http://pchain'',
                  infoAPICallLatencyMS =
                    Some \<lparr>gaugeOpts = infoAPICallLatencyOpts,
                          labelNames = [''info_api_base_url'']\<rparr>,
                  pChainAPICallLatencyMS =
                    Some \<lparr>gaugeOpts = pChainAPICallLatencyOpts,
                          labelNames = [''p_chain_api_base_url'']\<rparr>\<rparr>,
            None)
   \<and> NewAppRequestNetworkMetrics exampleNewGaugeVec None exampleRegisterer = Panic"
proof -
  have nonnil: "\<forall>opts labels. exampleNewGaugeVec opts labels \<noteq> None"
    by (simp add: exampleNewGaugeVec_def)
  have g1: "exampleNewGaugeVec infoAPICallLatencyOpts [''info_api_base_url'']
              = Some \<lparr>gaugeOpts = infoAPICallLatencyOpts, labelNames = [''info_api_base_url'']\<rparr>"
    by (simp add: exampleNewGaugeVec_def)
  have g2: "exampleNewGaugeVec pChainAPICallLatencyOpts [''p_chain_api_base_url'']
              = Some \<lparr>gaugeOpts = pChainAPICallLatencyOpts,
                      labelNames = [''p_chain_api_base_url'']\<rparr>"
    by (simp add: exampleNewGaugeVec_def)
  have reg1: "MustRegister exampleRegisterer (registry exampleRegisterer)
                \<lparr>gaugeOpts = infoAPICallLatencyOpts, labelNames = [''info_api_base_url'']\<rparr>
              = Some [''info_api_call_latency_ms'']"
    by (simp add: exampleRegisterer_def infoAPICallLatencyOpts_def)
  have reg2: "MustRegister exampleRegisterer [''info_api_call_latency_ms'']
                \<lparr>gaugeOpts = pChainAPICallLatencyOpts, labelNames = [''p_chain_api_base_url'']\<rparr>
              = Some [''p_chain_api_call_latency_ms'', ''info_api_call_latency_ms'']"
    by (simp add: exampleRegisterer_def pChainAPICallLatencyOpts_def)
  have cfg: "InfoAPI exampleConfig = Some \<lparr>BaseURL = ''http://info''\<rparr>
             \<and> PChainAPI exampleConfig = Some \<lparr>BaseURL = ''http://pchain''\<rparr>"
    by (simp add: exampleConfig_def)
  note inst = NewAppRequestNetworkMetrics_outcome
         [OF nonnil, where registerer = exampleRegisterer
            and infoGauge =
              "\<lparr>gaugeOpts = infoAPICallLatencyOpts, labelNames = [''info_api_base_url'']\<rparr>"
            and regInfo = "[''info_api_call_latency_ms'']"
            and pChainGauge =
              "\<lparr>gaugeOpts = pChainAPICallLatencyOpts, labelNames = [''p_chain_api_base_url'']\<rparr>"
            and regPChain = "[''p_chain_api_call_latency_ms'', ''info_api_call_latency_ms'']"]
  have a: "NewAppRequestNetworkMetrics exampleNewGaugeVec (Some exampleConfig) exampleRegisterer
       = Returns
           (exampleRegisterer
              \<lparr>registry := [''p_chain_api_call_latency_ms'', ''info_api_call_latency_ms'']\<rparr>,
            Some \<lparr>infoAPIBaseURL = ''http://info'',
                  pChainAPIBaseURL = ''http://pchain'',
                  infoAPICallLatencyMS =
                    Some \<lparr>gaugeOpts = infoAPICallLatencyOpts,
                          labelNames = [''info_api_base_url'']\<rparr>,
                  pChainAPICallLatencyMS =
                    Some \<lparr>gaugeOpts = pChainAPICallLatencyOpts,
                          labelNames = [''p_chain_api_base_url'']\<rparr>\<rparr>,
            None)"
    using inst [where cfg = "Some exampleConfig" and c = exampleConfig
                 and infoAPI = "\<lparr>BaseURL = ''http://info''\<rparr>"
                 and pChainAPI = "\<lparr>BaseURL = ''http://pchain''\<rparr>"]
          g1 g2 reg1 reg2 cfg
    by simp
  have b: "NewAppRequestNetworkMetrics exampleNewGaugeVec None exampleRegisterer = Panic"
    using inst [where cfg = None] g1 g2 reg1 reg2 by simp
  from nonnil a b show ?thesis by simp
qed

end
